theory Spec2Isabelle
  imports Main "HOL-Library.Word"
begin

section \<open>rebasebot/github.py: branch locations and the GitHub app provider\<close>

text \<open>
  The module has two parts: \<open>parse_github_branch\<close>, which turns a location string
  \<open><user or organization>/<repo>:<branch>\<close> into a \<open>GitHubBranch\<close>, and the class
  \<open>GithubAppProvider\<close>, which holds credentials and logs in to GitHub on first use.

  Python strings are modelled as \<open>string\<close>; a \<open>char\<close> stands for the code point of the
  same number, so the model covers the strings whose code points are below 256.
  Every \<open>raise\<close> of the source is a value of the type \<open>error\<close>.
\<close>

subsection \<open>Errors\<close>

datatype api_exception = UnknownObjectException | OtherException string

datatype error =
    ValueError string
  | Exception string
  | AttributeError
  | Propagated api_exception

subsection \<open>GitHubBranch\<close>

record GitHubBranch =
  url :: string
  ns :: string
  name :: string
  branch :: string

subsection \<open>The string operations of Python that the parser uses\<close>

text \<open>\<open>s.find(c)\<close>: the index of the first occurrence of \<open>c\<close>, or \<open>-1\<close>.\<close>

definition str_find :: "char \<Rightarrow> string \<Rightarrow> int" where
  "str_find c s =
     (if c \<in> set s then int (length (takeWhile (\<lambda>x. x \<noteq> c) s)) else - 1)"

text \<open>\<open>s.removeprefix(p)\<close>: \<open>s\<close> without the prefix \<open>p\<close> when it starts with it.\<close>

definition removeprefix :: "string \<Rightarrow> string \<Rightarrow> string" where
  "removeprefix p s = (if take (length p) s = p then drop (length p) s else s)"

text \<open>\<open>s.lower()\<close> on the letters of ASCII, the only ones a scheme can hold.\<close>

definition ascii_lower :: "char \<Rightarrow> char" where
  "ascii_lower c =
     (if c \<in> set ''ABCDEFGHIJKLMNOPQRSTUVWXYZ''
      then char_of (of_char c + (32::nat)) else c)"

subsection \<open>urllib.parse.urlparse, as far as scheme and netloc\<close>

text \<open>
  \<open>parse_github_branch\<close> reads two fields of \<open>urlparse(repository_string)\<close>: the
  scheme and the netloc. Both are computed by \<open>urlsplit\<close> of the standard library
  (CPython 3.11), which is followed here line by line up to the point where the two
  fields are known: leading C0 control characters and spaces are stripped, tabs,
  carriage returns and line feeds are removed, a scheme is split off at the first
  colon when everything before it is a scheme character and the first character is
  an ASCII letter, and a netloc is read after a leading \<open>//\<close> up to the first of
  \<open>/\<close>, \<open>?\<close> and \<open>#\<close>.

  \<open>urlsplit\<close> raises \<open>ValueError\<close> on unbalanced brackets in the netloc and when
  the text between brackets is not an IPv6 or IPvFuture address. That last check,
  \<open>_check_bracketed_host\<close>, is a parameter of the model: it returns the message of
  the \<open>ValueError\<close> it raises, or \<open>None\<close>. The NFKC check \<open>_checknetloc\<close> never
  raises on code points below 256 and is left out.
\<close>

definition WHATWG_C0_CONTROL_OR_SPACE :: "char \<Rightarrow> bool" where
  "WHATWG_C0_CONTROL_OR_SPACE c = (of_char c \<le> (32::nat))"

definition UNSAFE_URL_BYTES_TO_REMOVE :: "char list" where
  "UNSAFE_URL_BYTES_TO_REMOVE = [CHR 0x09, CHR 0x0D, CHR 0x0A]"

definition ascii_letters :: string where
  "ascii_letters = ''abcdefghijklmnopqrstuvwxyzABCDEFGHIJKLMNOPQRSTUVWXYZ''"

definition scheme_chars :: string where
  "scheme_chars = ascii_letters @ ''0123456789+-.''"

definition split_scheme :: "string \<Rightarrow> string \<times> string" where
  "split_scheme u =
     (let i = str_find (CHR '':'') u in
      if 0 < i \<and> hd u \<in> set ascii_letters
           \<and> list_all (\<lambda>c. c \<in> set scheme_chars) (take (nat i) u)
      then (map ascii_lower (take (nat i) u), drop (nat i + 1) u)
      else ([], u))"

definition bracketed_host :: "string \<Rightarrow> string" where
  "bracketed_host netloc =
     takeWhile (\<lambda>c. c \<noteq> CHR '']'') (tl (dropWhile (\<lambda>c. c \<noteq> CHR ''['') netloc))"

definition urlparse :: "(string \<Rightarrow> string option) \<Rightarrow> string \<Rightarrow> error + (string \<times> string)" where
  "urlparse check_bracketed_host s =
     (let u0 = dropWhile WHATWG_C0_CONTROL_OR_SPACE s;
          u1 = filter (\<lambda>c. c \<notin> set UNSAFE_URL_BYTES_TO_REMOVE) u0;
          scheme = fst (split_scheme u1);
          u2 = snd (split_scheme u1)
      in if take 2 u2 = ''//''
         then (let netloc = takeWhile (\<lambda>c. c \<notin> set ''/?#'') (drop 2 u2) in
               if (CHR ''['' \<in> set netloc \<and> CHR '']'' \<notin> set netloc)
                    \<or> (CHR '']'' \<in> set netloc \<and> CHR ''['' \<notin> set netloc)
               then Inl (ValueError ''Invalid IPv6 URL'')
               else if CHR ''['' \<in> set netloc \<and> CHR '']'' \<in> set netloc
               then (case check_bracketed_host (bracketed_host netloc) of
                       Some msg \<Rightarrow> Inl (ValueError msg)
                     | None \<Rightarrow> Inr (scheme, netloc))
               else Inr (scheme, netloc))
         else Inr (scheme, []))"

subsection \<open>The regular expression\<close>

text \<open>
  \<^verbatim>\<open>^(?P<organization>[^/]+)/(?P<name>[^:]+):(?P<branch>.*)$\<close>, applied with
  \<open>match\<close>, that is at the start of the string.

  \<open>[^/]+\<close> is greedy and must be followed by \<open>/\<close>: it takes the characters before the
  first \<open>/\<close>, which has to exist, and at least one of them. \<open>[^:]+\<close> then takes the
  characters up to the next colon in the same way; it may run over further \<open>/\<close>.
  \<open>.\<close> matches everything but a line feed, and \<open>$\<close> matches at the end of the string
  and also just before a line feed that ends the string: \<open>.*\<close> takes the characters
  up to the first line feed, and the match succeeds when nothing, or only that one
  line feed, is left. A shorter choice for any of the three groups is followed by
  a character the group itself would have taken, so backtracking finds no other match.
  The result is the three named groups.
\<close>

definition github_regex_match :: "string \<Rightarrow> (string \<times> string \<times> string) option" where
  "github_regex_match s =
     (let organization = takeWhile (\<lambda>c. c \<noteq> CHR ''/'') s;
          rest1 = dropWhile (\<lambda>c. c \<noteq> CHR ''/'') s
      in if organization = [] \<or> rest1 = [] then None
         else
           (let nm = takeWhile (\<lambda>c. c \<noteq> CHR '':'') (tl rest1);
                rest2 = dropWhile (\<lambda>c. c \<noteq> CHR '':'') (tl rest1)
            in if nm = [] \<or> rest2 = [] then None
               else
                 (let br = takeWhile (\<lambda>c. c \<noteq> CHR 0x0A) (tl rest2);
                      rest3 = dropWhile (\<lambda>c. c \<noteq> CHR 0x0A) (tl rest2)
                  in if rest3 = [] \<or> rest3 = [CHR 0x0A]
                     then Some (organization, nm, br) else None)))"

subsection \<open>parse_github_branch\<close>

definition parse_github_branch ::
  "(string \<Rightarrow> string option) \<Rightarrow> string \<Rightarrow> error + GitHubBranch" where
  "parse_github_branch check_bracketed_host repository_string =
     (case urlparse check_bracketed_host repository_string of
        Inl e \<Rightarrow> Inl e
      | Inr (scheme, netloc) \<Rightarrow>
          if scheme \<noteq> [] \<and> netloc \<noteq> ''github.com''
          then Inl (ValueError ''Only GitHub URLs are supported right now'')
          else
            (case github_regex_match
                    (removeprefix ''https://github.com/'' repository_string) of
               None \<Rightarrow>
                 Inl (ValueError
                   ''GitHub branch value must be in the form <user or organization>/<repo>:<branch>'')
             | Some (organization, nm, br) \<Rightarrow>
                 Inr \<lparr>url = ''https://github.com/'' @ organization @ ''/'' @ nm,
                      ns = organization, name = nm, branch = br\<rparr>))"

text \<open>
  The check of a bracketed host that never raises. The netloc of the example inputs
  below holds no bracket, so the check is not consulted on them.
\<close>

definition no_bracket_error :: "string \<Rightarrow> string option" where
  "no_bracket_error host = None"

subsection \<open>GitHubAppCredentials\<close>

type_synonym bytes = "8 word list"

record GitHubAppCredentials =
  app_id :: int
  app_key :: bytes
  github_branch :: GitHubBranch

subsection \<open>The GitHub client library and the remote API\<close>

text \<open>
  \<open>Auth.Token(token)\<close> and \<open>Github(auth=auth)\<close> build objects and send nothing. A
  \<open>Github\<close> object carries the number under which it was constructed, which tells
  two objects with the same token apart.

  \<open>GithubIntegration.get_repo_installation\<close> and \<open>get_access_token\<close> ask GitHub.
  Their answers are a parameter, \<open>remote\<close>: a function of the requests made so far
  and of the arguments, so that GitHub may answer the same request differently
  later. Each request is recorded with its answer in the \<open>world\<close>, together with
  the messages passed to \<open>logging\<close> and the number of \<open>Github\<close> objects built.
\<close>

datatype Auth = Token "string option"

datatype Github = Github nat Auth

datatype event =
    RepoInstallation int bytes string string "api_exception + int"
  | AccessToken int bytes int "api_exception + string"

datatype level = INFO | ERROR

record world =
  calls :: "event list"
  logged :: "(level \<times> string) list"
  handles :: nat

record remote =
  get_repo_installation ::
    "event list \<Rightarrow> int \<Rightarrow> bytes \<Rightarrow> string \<Rightarrow> string \<Rightarrow> api_exception + int"
  get_access_token ::
    "event list \<Rightarrow> int \<Rightarrow> bytes \<Rightarrow> int \<Rightarrow> api_exception + string"

definition logging_info :: "string \<Rightarrow> world \<Rightarrow> world" where
  "logging_info msg w = w\<lparr>logged := logged w @ [(INFO, msg)]\<rparr>"

definition logging_error :: "string \<Rightarrow> world \<Rightarrow> world" where
  "logging_error msg w = w\<lparr>logged := logged w @ [(ERROR, msg)]\<rparr>"

definition Github_new :: "Auth \<Rightarrow> world \<Rightarrow> Github \<times> world" where
  "Github_new a w = (Github (handles w) a, w\<lparr>handles := Suc (handles w)\<rparr>)"

text \<open>The access tokens GitHub has handed out, and the requests for one.\<close>

fun is_token_request :: "event \<Rightarrow> bool" where
  "is_token_request (AccessToken _ _ _ _) = True"
| "is_token_request _ = False"

fun is_token_exchange :: "event \<Rightarrow> bool" where
  "is_token_exchange (AccessToken _ _ _ (Inr _)) = True"
| "is_token_exchange _ = False"

definition token_requests :: "world \<Rightarrow> nat" where
  "token_requests w = length (filter is_token_request (calls w))"

definition token_exchanges :: "world \<Rightarrow> nat" where
  "token_exchanges w = length (filter is_token_exchange (calls w))"

subsection \<open>GithubAppProvider\<close>

text \<open>
  The fields \<open>_app_credentials\<close>, \<open>_cloner_app_credentials\<close>, \<open>_app_token\<close> and
  \<open>_cloner_token\<close> are written with the prefix \<open>p\<close>. \<open>github_app\<close> and
  \<open>github_cloner_app\<close> are \<open>cached_property\<close>s: the first read runs the method
  and stores what it returns in the instance under the property's name, later reads
  return the stored value. The two stored values are the fields \<open>cached_github_app\<close>
  and \<open>cached_github_cloner_app\<close>; a method that raises stores nothing.
\<close>

record GithubAppProvider =
  user_auth :: bool
  user_token :: "string option"
  p_app_credentials :: "GitHubAppCredentials option"
  p_cloner_app_credentials :: "GitHubAppCredentials option"
  p_app_token :: "string option"
  p_cloner_token :: "string option"
  cached_github_app :: "Github option"
  cached_github_cloner_app :: "Github option"

text \<open>
  Truth values of Python: \<open>None\<close>, the integer 0 and the empty byte string are false;
  a \<open>GitHubBranch\<close> is an object without \<open>__bool__\<close> or \<open>__len__\<close> and is true.
\<close>

definition bool_int :: "int option \<Rightarrow> bool" where
  "bool_int x = (case x of None \<Rightarrow> False | Some n \<Rightarrow> n \<noteq> 0)"

definition bool_bytes :: "bytes option \<Rightarrow> bool" where
  "bool_bytes x = (case x of None \<Rightarrow> False | Some b \<Rightarrow> b \<noteq> [])"

definition bool_branch :: "GitHubBranch option \<Rightarrow> bool" where
  "bool_branch x = (case x of None \<Rightarrow> False | Some b \<Rightarrow> True)"

definition GithubAppProvider_init ::
  "int option \<Rightarrow> bytes option \<Rightarrow> GitHubBranch option \<Rightarrow>
   int option \<Rightarrow> bytes option \<Rightarrow> GitHubBranch option \<Rightarrow>
   bool \<Rightarrow> string option \<Rightarrow> error + GithubAppProvider" where
  "GithubAppProvider_init app_id' app_key' dest_branch cloner_id cloner_key rebase_branch
       user_auth' user_token' =
     (let self = \<lparr>user_auth = user_auth', user_token = user_token',
                   p_app_credentials = None, p_cloner_app_credentials = None,
                   p_app_token = None, p_cloner_token = None,
                   cached_github_app = None, cached_github_cloner_app = None\<rparr>
      in if \<not> user_auth' then
           if \<not> list_all id
                  [bool_int app_id', bool_bytes app_key', bool_branch dest_branch,
                   bool_int cloner_id, bool_bytes cloner_key, bool_branch rebase_branch]
           then Inl (ValueError
                  ''Credentials for both, cloning and pushing app should be provided'')
           else Inr (self
                  \<lparr>p_app_credentials :=
                     Some \<lparr>app_id = the app_id', app_key = the app_key',
                           github_branch = the dest_branch\<rparr>,
                   p_cloner_app_credentials :=
                     Some \<lparr>app_id = the cloner_id, app_key = the cloner_key,
                           github_branch = the rebase_branch\<rparr>\<rparr>)
         else Inr self)"

definition get_app_token :: "GithubAppProvider \<Rightarrow> string option" where
  "get_app_token self = (if user_auth self then user_token self else p_app_token self)"

definition get_cloner_token :: "GithubAppProvider \<Rightarrow> string option" where
  "get_cloner_token self =
     (if user_auth self then user_token self else p_cloner_token self)"

definition github_login_app ::
  "remote \<Rightarrow> GitHubAppCredentials \<Rightarrow> world \<Rightarrow> (error + Github \<times> string) \<times> world" where
  "github_login_app api credentials w0 =
     (let w1 = logging_info
                 (''Logging to GitHub as an Application for repository ''
                    @ url (github_branch credentials)) w0;
          gh_branch = github_branch credentials;
          installation = get_repo_installation api (calls w1)
                 (app_id credentials) (app_key credentials) (ns gh_branch) (name gh_branch);
          w2 = w1\<lparr>calls := calls w1 @
                 [RepoInstallation (app_id credentials) (app_key credentials)
                    (ns gh_branch) (name gh_branch) installation]\<rparr>
      in case installation of
           Inl UnknownObjectException \<Rightarrow>
             (let msg = ''App has not been authorized by '' @ ns gh_branch
                          @ '', or repo '' @ ns gh_branch @ ''/'' @ name gh_branch
                          @ '' does not exist''
              in (Inl (Exception msg), logging_error msg w2))
         | Inl (OtherException e) \<Rightarrow> (Inl (Propagated (OtherException e)), w2)
         | Inr installation_id \<Rightarrow>
             (let access_token = get_access_token api (calls w2)
                     (app_id credentials) (app_key credentials) installation_id;
                  w3 = w2\<lparr>calls := calls w2 @
                     [AccessToken (app_id credentials) (app_key credentials)
                        installation_id access_token]\<rparr>
              in case access_token of
                   Inl e \<Rightarrow> (Inl (Propagated e), w3)
                 | Inr token \<Rightarrow>
                     (Inr (fst (Github_new (Token (Some token)) w3), token),
                      snd (Github_new (Token (Some token)) w3))))"

definition get_github_user_logged_in_app ::
  "GithubAppProvider \<Rightarrow> world \<Rightarrow> Github \<times> world" where
  "get_github_user_logged_in_app self w =
     Github_new (Token (user_token self)) (logging_info ''Logging to GitHub as a User'' w)"

text \<open>
  In app mode \<open>_app_credentials\<close> is set by the constructor; were it \<open>None\<close>, reading
  \<open>credentials.github_branch\<close> would raise \<open>AttributeError\<close> before anything is
  logged or sent.
\<close>

definition github_app ::
  "remote \<Rightarrow> GithubAppProvider \<Rightarrow> world \<Rightarrow> (error + Github) \<times> GithubAppProvider \<times> world" where
  "github_app api self w =
     (case cached_github_app self of
        Some gh_app \<Rightarrow> (Inr gh_app, self, w)
      | None \<Rightarrow>
          if user_auth self
          then (Inr (fst (get_github_user_logged_in_app self w)),
                self\<lparr>cached_github_app :=
                        Some (fst (get_github_user_logged_in_app self w))\<rparr>,
                snd (get_github_user_logged_in_app self w))
          else
            (case p_app_credentials self of
               None \<Rightarrow> (Inl AttributeError, self, w)
             | Some credentials \<Rightarrow>
                 (case github_login_app api credentials w of
                    (Inl e, w') \<Rightarrow> (Inl e, self, w')
                  | (Inr (gh_app, token), w') \<Rightarrow>
                      (Inr gh_app,
                       self\<lparr>p_app_token := Some token, cached_github_app := Some gh_app\<rparr>,
                       w'))))"

definition github_cloner_app ::
  "remote \<Rightarrow> GithubAppProvider \<Rightarrow> world \<Rightarrow> (error + Github) \<times> GithubAppProvider \<times> world" where
  "github_cloner_app api self w =
     (case cached_github_cloner_app self of
        Some gh_app \<Rightarrow> (Inr gh_app, self, w)
      | None \<Rightarrow>
          if user_auth self
          then (Inr (fst (get_github_user_logged_in_app self w)),
                self\<lparr>cached_github_cloner_app :=
                        Some (fst (get_github_user_logged_in_app self w))\<rparr>,
                snd (get_github_user_logged_in_app self w))
          else
            (case p_cloner_app_credentials self of
               None \<Rightarrow> (Inl AttributeError, self, w)
             | Some credentials \<Rightarrow>
                 (case github_login_app api credentials w of
                    (Inl e, w') \<Rightarrow> (Inl e, self, w')
                  | (Inr (gh_app, token), w') \<Rightarrow>
                      (Inr gh_app,
                       self\<lparr>p_cloner_token := Some token,
                            cached_github_cloner_app := Some gh_app\<rparr>,
                       w'))))"

subsection \<open>Two answers of GitHub for the examples\<close>

text \<open>
  On both, the app is installed on every repository, as installation 7. The first
  hands out the access token \<open>t\<close>; the second answers every request for an access
  token with an error other than \<open>UnknownObjectException\<close>.
\<close>

definition lookup_installed ::
  "event list \<Rightarrow> int \<Rightarrow> bytes \<Rightarrow> string \<Rightarrow> string \<Rightarrow> api_exception + int" where
  "lookup_installed history app key owner repo = Inr 7"

definition token_granted ::
  "event list \<Rightarrow> int \<Rightarrow> bytes \<Rightarrow> int \<Rightarrow> api_exception + string" where
  "token_granted history app key installation_id = Inr ''t''"

definition token_refused ::
  "event list \<Rightarrow> int \<Rightarrow> bytes \<Rightarrow> int \<Rightarrow> api_exception + string" where
  "token_refused history app key installation_id = Inl (OtherException ''502'')"

section \<open>Properties of the parser\<close>

lemmas parse_defs = parse_github_branch_def urlparse_def split_scheme_def str_find_def
  WHATWG_C0_CONTROL_OR_SPACE_def UNSAFE_URL_BYTES_TO_REMOVE_def ascii_letters_def
  scheme_chars_def github_regex_match_def removeprefix_def ascii_lower_def bracketed_host_def

subsection \<open>Splitting a string at the first occurrence of a character\<close>

lemma split_at_first:
  assumes "dropWhile (\<lambda>x. x \<noteq> c) xs \<noteq> []"
  shows "xs = takeWhile (\<lambda>x. x \<noteq> c) xs @ c # tl (dropWhile (\<lambda>x. x \<noteq> c) xs)"
proof -
  have "hd (dropWhile (\<lambda>x. x \<noteq> c) xs) = c"
    using assms hd_dropWhile [of "\<lambda>x. x \<noteq> c" xs] by simp
  then have "dropWhile (\<lambda>x. x \<noteq> c) xs = c # tl (dropWhile (\<lambda>x. x \<noteq> c) xs)"
    using assms by (metis list.collapse)
  then show ?thesis
    by (metis takeWhile_dropWhile_id)
qed

lemma takeWhile_not_mem: "c \<notin> set (takeWhile (\<lambda>x. x \<noteq> c) xs)"
  by (induction xs) auto

lemma takeWhile_append_stop:
  "c \<notin> set xs \<Longrightarrow> takeWhile (\<lambda>x. x \<noteq> c) (xs @ c # ys) = xs"
  by (induction xs) auto

lemma dropWhile_append_stop:
  "c \<notin> set xs \<Longrightarrow> dropWhile (\<lambda>x. x \<noteq> c) (xs @ c # ys) = c # ys"
  by (induction xs) auto

lemma takeWhile_all: "c \<notin> set xs \<Longrightarrow> takeWhile (\<lambda>x. x \<noteq> c) xs = xs"
  by (induction xs) auto

lemma dropWhile_all: "c \<notin> set xs \<Longrightarrow> dropWhile (\<lambda>x. x \<noteq> c) xs = []"
  by (induction xs) auto

subsection \<open>What the regular expression accepts\<close>

text \<open>
  A match gives the three groups of a string \<open>organization/name:branch\<close>, with an
  optional line feed after the branch; the organization has no \<open>/\<close>, the name has no
  colon, the branch has no line feed, and organization and name are not empty.
\<close>

lemma github_regex_match_SomeD:
  assumes "github_regex_match s = Some (organization, nm, br)"
  shows "organization = takeWhile (\<lambda>c. c \<noteq> CHR ''/'') s"
    and "organization \<noteq> []" and "nm \<noteq> []"
    and "CHR ''/'' \<notin> set organization" and "CHR '':'' \<notin> set nm"
    and "CHR 0x0A \<notin> set br"
    and "s = organization @ ''/'' @ nm @ '':'' @ br
         \<or> s = organization @ ''/'' @ nm @ '':'' @ br @ [CHR 0x0A]"
proof -
  let ?r1 = "dropWhile (\<lambda>c. c \<noteq> CHR ''/'') s"
  let ?r2 = "dropWhile (\<lambda>c. c \<noteq> CHR '':'') (tl ?r1)"
  let ?r3 = "dropWhile (\<lambda>c. c \<noteq> CHR 0x0A) (tl ?r2)"
  from assms have o: "organization = takeWhile (\<lambda>c. c \<noteq> CHR ''/'') s"
    and n: "nm = takeWhile (\<lambda>c. c \<noteq> CHR '':'') (tl ?r1)"
    and b: "br = takeWhile (\<lambda>c. c \<noteq> CHR 0x0A) (tl ?r2)"
    and ne: "organization \<noteq> []" "nm \<noteq> []" "?r1 \<noteq> []" "?r2 \<noteq> []"
    and r3: "?r3 = [] \<or> ?r3 = [CHR 0x0A]"
    by (auto simp: github_regex_match_def Let_def split: if_splits)
  show "organization = takeWhile (\<lambda>c. c \<noteq> CHR ''/'') s" by (rule o)
  show "organization \<noteq> []" "nm \<noteq> []" by (rule ne)+
  show "CHR ''/'' \<notin> set organization" unfolding o by (rule takeWhile_not_mem)
  show "CHR '':'' \<notin> set nm" unfolding n by (rule takeWhile_not_mem)
  show "CHR 0x0A \<notin> set br" unfolding b by (rule takeWhile_not_mem)
  have s1: "s = organization @ CHR ''/'' # tl ?r1"
    unfolding o using ne(3) by (rule split_at_first)
  have s2: "tl ?r1 = nm @ CHR '':'' # tl ?r2"
    unfolding n using ne(4) by (rule split_at_first)
  have s3: "tl ?r2 = br @ ?r3"
    unfolding b by simp
  from r3 s1 s2 s3
  show "s = organization @ ''/'' @ nm @ '':'' @ br
        \<or> s = organization @ ''/'' @ nm @ '':'' @ br @ [CHR 0x0A]"
    by (metis append.right_neutral append_Cons append_Nil)
qed

lemma github_regex_match_segments:
  assumes "organization \<noteq> []" "CHR ''/'' \<notin> set organization"
    and "nm \<noteq> []" "CHR '':'' \<notin> set nm" and "CHR 0x0A \<notin> set br"
  shows "github_regex_match (organization @ ''/'' @ nm @ '':'' @ br)
           = Some (organization, nm, br)"
    and "github_regex_match (organization @ ''/'' @ nm @ '':'' @ br @ [CHR 0x0A])
           = Some (organization, nm, br)"
  using assms
  by (simp_all add: github_regex_match_def takeWhile_append_stop dropWhile_append_stop
      takeWhile_all dropWhile_all)

lemma github_regex_match_iff:
  "github_regex_match s = Some (organization, nm, br) \<longleftrightarrow>
     organization \<noteq> [] \<and> CHR ''/'' \<notin> set organization
     \<and> nm \<noteq> [] \<and> CHR '':'' \<notin> set nm \<and> CHR 0x0A \<notin> set br
     \<and> (s = organization @ ''/'' @ nm @ '':'' @ br
          \<or> s = organization @ ''/'' @ nm @ '':'' @ br @ [CHR 0x0A])"
proof
  assume m: "github_regex_match s = Some (organization, nm, br)"
  from github_regex_match_SomeD(2-7) [OF m]
  show "organization \<noteq> [] \<and> CHR ''/'' \<notin> set organization
     \<and> nm \<noteq> [] \<and> CHR '':'' \<notin> set nm \<and> CHR 0x0A \<notin> set br
     \<and> (s = organization @ ''/'' @ nm @ '':'' @ br
          \<or> s = organization @ ''/'' @ nm @ '':'' @ br @ [CHR 0x0A])"
    by blast
next
  assume a: "organization \<noteq> [] \<and> CHR ''/'' \<notin> set organization
     \<and> nm \<noteq> [] \<and> CHR '':'' \<notin> set nm \<and> CHR 0x0A \<notin> set br
     \<and> (s = organization @ ''/'' @ nm @ '':'' @ br
          \<or> s = organization @ ''/'' @ nm @ '':'' @ br @ [CHR 0x0A])"
  then have "github_regex_match (organization @ ''/'' @ nm @ '':'' @ br)
               = Some (organization, nm, br)"
    and "github_regex_match (organization @ ''/'' @ nm @ '':'' @ br @ [CHR 0x0A])
               = Some (organization, nm, br)"
    by (intro github_regex_match_segments; simp)+
  with a show "github_regex_match s = Some (organization, nm, br)"
    by metis
qed

subsection \<open>What parse_github_branch returns\<close>

lemma parse_SomeD:
  assumes "parse_github_branch chk s = Inr g"
  shows "github_regex_match (removeprefix ''https://github.com/'' s)
           = Some (ns g, name g, branch g)"
    and "url g = ''https://github.com/'' @ ns g @ ''/'' @ name g"
  using assms
  by (auto simp: parse_github_branch_def split: sum.splits prod.splits if_splits option.splits)

lemma parse_of_urlparse:
  "urlparse chk s = Inr (scheme, netloc) \<Longrightarrow> scheme = [] \<or> netloc = ''github.com'' \<Longrightarrow>
   parse_github_branch chk s =
     (case github_regex_match (removeprefix ''https://github.com/'' s) of
        None \<Rightarrow>
          Inl (ValueError
            ''GitHub branch value must be in the form <user or organization>/<repo>:<branch>'')
      | Some (organization, nm, br) \<Rightarrow>
          Inr \<lparr>url = ''https://github.com/'' @ organization @ ''/'' @ nm,
               ns = organization, name = nm, branch = br\<rparr>)"
  by (auto simp: parse_github_branch_def)

lemma removeprefix_append: "removeprefix p (p @ t) = t"
  by (simp add: removeprefix_def)

lemma removeprefix_last:
  assumes "removeprefix p s \<noteq> []"
  shows "last (removeprefix p s) = last s"
  using assms by (auto simp: removeprefix_def last_drop split: if_splits)

lemma removeprefix_no_colon:
  assumes "CHR '':'' \<notin> set organization" "CHR ''/'' \<notin> set organization"
  shows "removeprefix ''https://github.com/'' (organization @ CHR ''/'' # rest)
           = organization @ CHR ''/'' # rest"
proof -
  let ?t = "organization @ CHR ''/'' # rest"
  have "take (length ''https://github.com/'') ?t \<noteq> ''https://github.com/''"
  proof
    assume eq: "take (length ''https://github.com/'') ?t = ''https://github.com/''"
    have "takeWhile (\<lambda>c. c \<noteq> CHR ''/'') ?t = organization"
      using assms(2) by (rule takeWhile_append_stop)
    moreover obtain d where d: "?t = ''https://github.com/'' @ d"
      using eq by (metis append_take_drop_id)
    have "takeWhile (\<lambda>c. c \<noteq> CHR ''/'') ?t = ''https:''"
      unfolding d by simp
    ultimately show False using assms(1) by auto
  qed
  then show ?thesis by (simp add: removeprefix_def)
qed

subsection \<open>Scheme and netloc of the two accepted forms\<close>

lemma urlparse_https_github:
  "urlparse chk (''https://github.com/'' @ t) = Inr (''https'', ''github.com'')"
  by (simp add: urlparse_def split_scheme_def str_find_def WHATWG_C0_CONTROL_OR_SPACE_def
      UNSAFE_URL_BYTES_TO_REMOVE_def ascii_letters_def scheme_chars_def ascii_lower_def)

lemma not_space_not_unsafe:
  "\<not> WHATWG_C0_CONTROL_OR_SPACE a \<Longrightarrow> a \<notin> set UNSAFE_URL_BYTES_TO_REMOVE"
  by (auto simp: WHATWG_C0_CONTROL_OR_SPACE_def UNSAFE_URL_BYTES_TO_REMOVE_def)

lemma slash_not_scheme_char: "CHR ''/'' \<notin> set scheme_chars"
  by (simp add: scheme_chars_def ascii_letters_def)

text \<open>A \<open>/\<close> before the first colon: no scheme is split off.\<close>

lemma split_scheme_slash_first:
  assumes "CHR '':'' \<notin> set xs"
  shows "split_scheme (xs @ CHR ''/'' # ys) = ([], xs @ CHR ''/'' # ys)"
proof (cases "CHR '':'' \<in> set ys")
  case False
  with assms show ?thesis by (simp add: split_scheme_def str_find_def)
next
  case True
  let ?u = "xs @ CHR ''/'' # ys"
  have tw: "takeWhile (\<lambda>x. x \<noteq> CHR '':'') ?u
              = xs @ CHR ''/'' # takeWhile (\<lambda>x. x \<noteq> CHR '':'') ys"
    using assms by (induction xs) auto
  have sf: "str_find (CHR '':'') ?u = int (length (takeWhile (\<lambda>x. x \<noteq> CHR '':'') ?u))"
    using True by (simp add: str_find_def)
  have "take (length (takeWhile (\<lambda>x. x \<noteq> CHR '':'') ?u)) ?u
          = takeWhile (\<lambda>x. x \<noteq> CHR '':'') ?u"
    by (metis takeWhile_eq_take)
  then have "CHR ''/'' \<in> set (take (length (takeWhile (\<lambda>x. x \<noteq> CHR '':'') ?u)) ?u)"
    using tw by simp
  then have na: "list_all (\<lambda>c. c \<in> set scheme_chars)
                   (take (nat (str_find (CHR '':'') ?u)) ?u) = False"
    unfolding sf nat_int using slash_not_scheme_char by (auto simp: list_all_iff)
  show ?thesis
    unfolding split_scheme_def Let_def na by (simp only: simp_thms if_False)
qed

lemma urlparse_no_scheme:
  assumes "\<not> list_all WHATWG_C0_CONTROL_OR_SPACE owner"
    and "CHR '':'' \<notin> set owner" "CHR ''/'' \<notin> set owner"
  shows "urlparse chk (owner @ CHR ''/'' # rest) = Inr ([], [])"
proof -
  let ?d = "dropWhile WHATWG_C0_CONTROL_OR_SPACE owner"
  have ex: "\<exists>x\<in>set owner. \<not> WHATWG_C0_CONTROL_OR_SPACE x"
    using assms(1) by (simp add: list_all_iff)
  then have d0: "dropWhile WHATWG_C0_CONTROL_OR_SPACE (owner @ CHR ''/'' # rest)
                   = ?d @ CHR ''/'' # rest"
    by (auto simp: dropWhile_append1)
  have ne: "?d \<noteq> []"
    using ex by (simp add: dropWhile_eq_Nil_conv)
  then have hd: "\<not> WHATWG_C0_CONTROL_OR_SPACE (hd ?d)"
    by (rule hd_dropWhile)
  have sub: "set ?d \<subseteq> set owner"
    by (rule set_dropWhileD [THEN subsetI])
  obtain a as where o: "?d = a # as"
    using ne by (cases ?d) auto
  let ?f = "filter (\<lambda>c. c \<notin> set UNSAFE_URL_BYTES_TO_REMOVE)"
  have a: "a \<notin> set UNSAFE_URL_BYTES_TO_REMOVE" "a \<noteq> CHR ''/''"
    using hd o sub assms(3) not_space_not_unsafe by auto
  have sl: "CHR ''/'' \<notin> set UNSAFE_URL_BYTES_TO_REMOVE"
    by (simp add: UNSAFE_URL_BYTES_TO_REMOVE_def)
  have u1: "?f (?d @ CHR ''/'' # rest) = (a # ?f as) @ CHR ''/'' # ?f rest"
    using a o sl by simp
  have "CHR '':'' \<notin> set (a # ?f as)"
    using assms(2) o sub by auto
  then have ss: "split_scheme ((a # ?f as) @ CHR ''/'' # ?f rest)
                   = ([], (a # ?f as) @ CHR ''/'' # ?f rest)"
    by (rule split_scheme_slash_first)
  have t2: "(take 2 ((a # ?f as) @ CHR ''/'' # ?f rest) = ''//'') = False"
    using a by (simp add: numeral_2_eq_2)
  show ?thesis
    unfolding urlparse_def Let_def d0 u1 ss by (simp only: fst_conv snd_conv t2 if_False)
qed

section \<open>The parser: statements of the specification\<close>

subsection \<open>Owner and repository segment\<close>

text \<open>
  C10. Whenever \<open>parse_github_branch\<close> returns a \<open>GitHubBranch\<close>, its \<open>ns\<close> (the
  owner) is exactly the characters before the first \<open>/\<close> of the input without the
  prefix \<open>https://github.com/\<close>. The repository name may hold \<open>/\<close> itself:
  \<open>a/b/c:main\<close> is parsed with owner \<open>a\<close> and repository \<open>b/c\<close>.
\<close>

theorem parse_owner_before_first_slash:
  "(\<forall>g. parse_github_branch chk s = Inr g \<longrightarrow>
        ns g = takeWhile (\<lambda>c. c \<noteq> CHR ''/'') (removeprefix ''https://github.com/'' s))
   \<and> parse_github_branch chk ''a/b/c:main'' =
       Inr \<lparr>url = ''https://github.com/a/b/c'', ns = ''a'', name = ''b/c'',
            branch = ''main''\<rparr>"
proof (intro conjI allI impI)
  fix g assume "parse_github_branch chk s = Inr g"
  then have "github_regex_match (removeprefix ''https://github.com/'' s)
               = Some (ns g, name g, branch g)"
    by (rule parse_SomeD)
  then show "ns g = takeWhile (\<lambda>c. c \<noteq> CHR ''/'') (removeprefix ''https://github.com/'' s)"
    by (rule github_regex_match_SomeD)
next
  show "parse_github_branch chk ''a/b/c:main'' =
       Inr \<lparr>url = ''https://github.com/a/b/c'', ns = ''a'', name = ''b/c'',
            branch = ''main''\<rparr>"
    by (simp add: parse_defs)
qed

theorem parse_owner_before_first_slash_witness:
  "parse_github_branch no_bracket_error ''openshift/api:main'' =
     Inr \<lparr>url = ''https://github.com/openshift/api'', ns = ''openshift'', name = ''api'',
          branch = ''main''\<rparr>
   \<and> ''openshift'' = takeWhile (\<lambda>c. c \<noteq> CHR ''/'')
                        (removeprefix ''https://github.com/'' ''openshift/api:main'')"
proof -
  have h: "parse_github_branch no_bracket_error ''openshift/api:main'' =
     Inr \<lparr>url = ''https://github.com/openshift/api'', ns = ''openshift'', name = ''api'',
          branch = ''main''\<rparr>"
    by (simp add: parse_defs)
  from parse_owner_before_first_slash [of no_bracket_error "''openshift/api:main''"] h
  have "ns \<lparr>url = ''https://github.com/openshift/api'', ns = ''openshift'', name = ''api'',
           branch = ''main''\<rparr>
      = takeWhile (\<lambda>c. c \<noteq> CHR ''/'')
          (removeprefix ''https://github.com/'' ''openshift/api:main'')"
    by blast
  with h show ?thesis by simp
qed

subsection \<open>The branch is the rest of the string\<close>

text \<open>
  C7, amended. Whenever \<open>parse_github_branch\<close> returns a \<open>GitHubBranch\<close> for an
  input that does not end in a line feed, the input without the prefix
  \<open>https://github.com/\<close> is owner, \<open>/\<close>, repository, \<open>:\<close>, branch, where the owner has
  no \<open>/\<close> and the repository has no colon: the branch is everything after the first
  colon that follows the first \<open>/\<close>, further colons included.
  \<open>openshift/api:release-4.14:extra\<close> has the branch \<open>release-4.14:extra\<close>.
\<close>

theorem parse_branch_rest:
  "(\<forall>g. parse_github_branch chk s = Inr g \<and> last s \<noteq> CHR 0x0A \<longrightarrow>
        removeprefix ''https://github.com/'' s = ns g @ ''/'' @ name g @ '':'' @ branch g
        \<and> CHR ''/'' \<notin> set (ns g) \<and> CHR '':'' \<notin> set (name g))
   \<and> parse_github_branch chk ''openshift/api:release-4.14:extra'' =
       Inr \<lparr>url = ''https://github.com/openshift/api'', ns = ''openshift'', name = ''api'',
            branch = ''release-4.14:extra''\<rparr>"
proof (intro conjI allI impI)
  fix g assume a: "parse_github_branch chk s = Inr g \<and> last s \<noteq> CHR 0x0A"
  let ?s = "removeprefix ''https://github.com/'' s"
  from a have p: "parse_github_branch chk s = Inr g" by simp
  have m: "github_regex_match ?s = Some (ns g, name g, branch g)"
    using p by (rule parse_SomeD)
  note d = github_regex_match_SomeD [OF m]
  show "CHR ''/'' \<notin> set (ns g)" by (rule d)
  show "CHR '':'' \<notin> set (name g)" by (rule d)
  have "?s \<noteq> []" using d(7) by auto
  then have "last ?s \<noteq> CHR 0x0A"
    using a removeprefix_last by metis
  moreover have "last (ns g @ ''/'' @ name g @ '':'' @ branch g @ [CHR 0x0A]) = CHR 0x0A"
    by simp
  ultimately show "?s = ns g @ ''/'' @ name g @ '':'' @ branch g"
    using d(7) by metis
next
  show "parse_github_branch chk ''openshift/api:release-4.14:extra'' =
       Inr \<lparr>url = ''https://github.com/openshift/api'', ns = ''openshift'', name = ''api'',
            branch = ''release-4.14:extra''\<rparr>"
    by (simp add: parse_defs)
qed

theorem parse_branch_rest_witness:
  "parse_github_branch no_bracket_error ''a/b:c:d'' =
     Inr \<lparr>url = ''https://github.com/a/b'', ns = ''a'', name = ''b'', branch = ''c:d''\<rparr>
   \<and> last ''a/b:c:d'' \<noteq> CHR 0x0A
   \<and> removeprefix ''https://github.com/'' ''a/b:c:d'' = ''a'' @ ''/'' @ ''b'' @ '':'' @ ''c:d''"
proof -
  have h: "parse_github_branch no_bracket_error ''a/b:c:d'' =
     Inr \<lparr>url = ''https://github.com/a/b'', ns = ''a'', name = ''b'', branch = ''c:d''\<rparr>"
    by (simp add: parse_defs)
  have l: "last ''a/b:c:d'' \<noteq> CHR 0x0A" by simp
  from parse_branch_rest [of no_bracket_error "''a/b:c:d''"] h l
  have "removeprefix ''https://github.com/'' ''a/b:c:d'' =
      ns \<lparr>url = ''https://github.com/a/b'', ns = ''a'', name = ''b'', branch = ''c:d''\<rparr>
      @ ''/''
      @ name \<lparr>url = ''https://github.com/a/b'', ns = ''a'', name = ''b'', branch = ''c:d''\<rparr>
      @ '':''
      @ branch \<lparr>url = ''https://github.com/a/b'', ns = ''a'', name = ''b'', branch = ''c:d''\<rparr>"
    by blast
  with h l show ?thesis by simp
qed

text \<open>
  The statement without the condition on the last character fails: for
  \<open>a/b:c:d\<close> followed by a line feed the rest after the first colon is \<open>c:d\<close> and the
  line feed, and the branch returned is \<open>c:d\<close>.
\<close>

theorem parse_branch_rest_counterexample:
  "parse_github_branch no_bracket_error (''a/b:c:d'' @ [CHR 0x0A]) =
     Inr \<lparr>url = ''https://github.com/a/b'', ns = ''a'', name = ''b'', branch = ''c:d''\<rparr>
   \<and> ''c:d'' \<noteq> ''c:d'' @ [CHR 0x0A]"
  by (simp add: parse_defs no_bracket_error_def)

subsection \<open>Which fields are never empty\<close>

text \<open>
  C4, amended. Every \<open>GitHubBranch\<close> returned by \<open>parse_github_branch\<close> has a
  non-empty \<open>url\<close>, \<open>ns\<close> (owner) and \<open>name\<close> (repository), and its \<open>url\<close> is
  \<open>https://github.com/\<close>, owner, \<open>/\<close>, repository. Nothing is said of the branch.
\<close>

theorem parse_fields_nonempty:
  assumes "parse_github_branch chk s = Inr g"
  shows "url g \<noteq> [] \<and> ns g \<noteq> [] \<and> name g \<noteq> []
         \<and> url g = ''https://github.com/'' @ ns g @ ''/'' @ name g"
proof -
  from assms
  have m: "github_regex_match (removeprefix ''https://github.com/'' s)
             = Some (ns g, name g, branch g)"
    and u: "url g = ''https://github.com/'' @ ns g @ ''/'' @ name g"
    by (rule parse_SomeD)+
  from github_regex_match_SomeD(2,3) [OF m] u show ?thesis by simp
qed

theorem parse_fields_nonempty_witness:
  "parse_github_branch no_bracket_error ''openshift/api:'' =
     Inr \<lparr>url = ''https://github.com/openshift/api'', ns = ''openshift'', name = ''api'',
          branch = []\<rparr>
   \<and> ''https://github.com/openshift/api'' \<noteq> [] \<and> ''openshift'' \<noteq> [] \<and> ''api'' \<noteq> []"
proof -
  have h: "parse_github_branch no_bracket_error ''openshift/api:'' =
     Inr \<lparr>url = ''https://github.com/openshift/api'', ns = ''openshift'', name = ''api'',
          branch = []\<rparr>"
    by (simp add: parse_defs)
  from parse_fields_nonempty [OF h] h show ?thesis by simp
qed

text \<open>The branch can be empty: \<open>a/b:\<close> is accepted, with the branch \<open>''''\<close>.\<close>

theorem parse_empty_branch_counterexample:
  "parse_github_branch no_bracket_error ''a/b:'' =
     Inr \<lparr>url = ''https://github.com/a/b'', ns = ''a'', name = ''b'', branch = []\<rparr>"
  by (simp add: parse_defs no_bracket_error_def)

subsection \<open>The check of the host\<close>

text \<open>
  C2, amended. An input in which \<open>urlparse\<close> finds a scheme and a netloc other than
  \<open>github.com\<close> is rejected with \<open>Only GitHub URLs are supported right now\<close>, whatever
  the regular expression would say of it; \<open>https://gitlab.com/openshift/api:main\<close> is
  such an input. An input in which \<open>urlparse\<close> finds no scheme is never rejected
  with that message.
\<close>

theorem parse_rejects_other_host:
  "(\<forall>scheme netloc.
       urlparse chk s = Inr (scheme, netloc) \<and> scheme \<noteq> [] \<and> netloc \<noteq> ''github.com''
       \<longrightarrow> parse_github_branch chk s =
             Inl (ValueError ''Only GitHub URLs are supported right now''))
   \<and> (\<forall>netloc. urlparse chk s = Inr ([], netloc)
       \<longrightarrow> parse_github_branch chk s \<noteq>
             Inl (ValueError ''Only GitHub URLs are supported right now''))
   \<and> parse_github_branch chk ''https://gitlab.com/openshift/api:main'' =
       Inl (ValueError ''Only GitHub URLs are supported right now'')"
proof (intro conjI allI impI)
  fix scheme netloc
  assume "urlparse chk s = Inr (scheme, netloc) \<and> scheme \<noteq> [] \<and> netloc \<noteq> ''github.com''"
  then show "parse_github_branch chk s =
      Inl (ValueError ''Only GitHub URLs are supported right now'')"
    by (simp add: parse_github_branch_def)
next
  fix netloc
  assume "urlparse chk s = Inr ([], netloc)"
  then show "parse_github_branch chk s \<noteq>
      Inl (ValueError ''Only GitHub URLs are supported right now'')"
    by (simp add: parse_github_branch_def split: option.splits)
next
  show "parse_github_branch chk ''https://gitlab.com/openshift/api:main'' =
      Inl (ValueError ''Only GitHub URLs are supported right now'')"
    by (simp add: parse_github_branch_def urlparse_def split_scheme_def str_find_def
        WHATWG_C0_CONTROL_OR_SPACE_def UNSAFE_URL_BYTES_TO_REMOVE_def ascii_letters_def
        scheme_chars_def ascii_lower_def)
qed

theorem parse_rejects_other_host_witness:
  "urlparse no_bracket_error ''ssh://gitlab.com/openshift/api:main''
     = Inr (''ssh'', ''gitlab.com'')
   \<and> parse_github_branch no_bracket_error ''ssh://gitlab.com/openshift/api:main'' =
       Inl (ValueError ''Only GitHub URLs are supported right now'')"
proof -
  have h: "urlparse no_bracket_error ''ssh://gitlab.com/openshift/api:main''
             = Inr (''ssh'', ''gitlab.com'')"
    by (simp add: urlparse_def split_scheme_def str_find_def
      WHATWG_C0_CONTROL_OR_SPACE_def UNSAFE_URL_BYTES_TO_REMOVE_def ascii_letters_def
      scheme_chars_def ascii_lower_def)
  have n: "''ssh'' \<noteq> []" "''gitlab.com'' \<noteq> ''github.com''" by simp_all
  from parse_rejects_other_host [of no_bracket_error "''ssh://gitlab.com/openshift/api:main''"]
    h n
  have "parse_github_branch no_bracket_error ''ssh://gitlab.com/openshift/api:main'' =
       Inl (ValueError ''Only GitHub URLs are supported right now'')"
    by blast
  with h show ?thesis by simp
qed

text \<open>
  \<open>gitlab.com/openshift/api:main\<close> has a \<open>/\<close> before its first colon, so no scheme is
  found in it; it is accepted, with the owner \<open>gitlab.com\<close>.
\<close>

theorem parse_no_scheme_counterexample:
  "parse_github_branch no_bracket_error ''gitlab.com/openshift/api:main'' =
     Inr \<lparr>url = ''https://github.com/gitlab.com/openshift/api'', ns = ''gitlab.com'',
          name = ''openshift/api'', branch = ''main''\<rparr>"
  by (simp add: parse_defs no_bracket_error_def)

subsection \<open>The URL form and the bare form\<close>

text \<open>
  C8, amended. For every owner without \<open>/\<close> and without colon that holds a
  character other than a space or a C0 control character, and for every repository
  and branch, \<open>https://github.com/owner/repo:branch\<close> and \<open>owner/repo:branch\<close> have
  the same result. When moreover the repository is not empty and has no colon and
  the branch has no line feed, that result is the \<open>GitHubBranch\<close> of these segments.
\<close>

theorem parse_url_form_eq_bare_form:
  assumes "\<not> list_all WHATWG_C0_CONTROL_OR_SPACE owner"
    and "CHR ''/'' \<notin> set owner" and "CHR '':'' \<notin> set owner"
  shows "parse_github_branch chk (''https://github.com/'' @ owner @ ''/'' @ repo @ '':'' @ br)
           = parse_github_branch chk (owner @ ''/'' @ repo @ '':'' @ br)
         \<and> (repo \<noteq> [] \<and> CHR '':'' \<notin> set repo \<and> CHR 0x0A \<notin> set br \<longrightarrow>
              parse_github_branch chk (owner @ ''/'' @ repo @ '':'' @ br) =
                Inr \<lparr>url = ''https://github.com/'' @ owner @ ''/'' @ repo,
                     ns = owner, name = repo, branch = br\<rparr>)"
proof -
  let ?t = "owner @ ''/'' @ repo @ '':'' @ br"
  let ?k = "\<lambda>s. case github_regex_match s of
        None \<Rightarrow>
          Inl (ValueError
            ''GitHub branch value must be in the form <user or organization>/<repo>:<branch>'')
      | Some (organization, nm, b) \<Rightarrow>
          Inr \<lparr>url = ''https://github.com/'' @ organization @ ''/'' @ nm,
               ns = organization, name = nm, branch = b\<rparr>"
  have t: "?t = owner @ CHR ''/'' # (repo @ '':'' @ br)" by simp
  have "parse_github_branch chk (''https://github.com/'' @ ?t)
          = ?k (removeprefix ''https://github.com/'' (''https://github.com/'' @ ?t))"
    by (rule parse_of_urlparse [OF urlparse_https_github]) simp
  then have full: "parse_github_branch chk (''https://github.com/'' @ ?t) = ?k ?t"
    by (simp only: removeprefix_append)
  have u: "urlparse chk ?t = Inr ([], [])"
    unfolding t using assms(1,3,2) by (rule urlparse_no_scheme)
  have rp: "removeprefix ''https://github.com/'' ?t = ?t"
    unfolding t using assms(3,2) by (rule removeprefix_no_colon)
  have "parse_github_branch chk ?t = ?k (removeprefix ''https://github.com/'' ?t)"
    by (rule parse_of_urlparse [OF u]) simp
  then have bare: "parse_github_branch chk ?t = ?k ?t"
    by (simp only: rp)
  have ne: "owner \<noteq> []" using assms(1) by auto
  show ?thesis
  proof (intro conjI impI)
    show "parse_github_branch chk (''https://github.com/'' @ ?t) = parse_github_branch chk ?t"
      by (simp only: full bare)
  next
    assume r: "repo \<noteq> [] \<and> CHR '':'' \<notin> set repo \<and> CHR 0x0A \<notin> set br"
    have m: "github_regex_match ?t = Some (owner, repo, br)"
      using ne assms(2) r by (intro github_regex_match_segments) simp_all
    show "parse_github_branch chk ?t =
            Inr \<lparr>url = ''https://github.com/'' @ owner @ ''/'' @ repo,
                 ns = owner, name = repo, branch = br\<rparr>"
      unfolding bare m by simp
  qed
qed

theorem parse_url_form_eq_bare_form_witness:
  "\<not> list_all WHATWG_C0_CONTROL_OR_SPACE ''openshift''
   \<and> CHR ''/'' \<notin> set ''openshift'' \<and> CHR '':'' \<notin> set ''openshift''
   \<and> parse_github_branch no_bracket_error
        (''https://github.com/'' @ ''openshift'' @ ''/'' @ ''api'' @ '':'' @ ''main'')
       = parse_github_branch no_bracket_error
           (''openshift'' @ ''/'' @ ''api'' @ '':'' @ ''main'')
   \<and> parse_github_branch no_bracket_error
        (''openshift'' @ ''/'' @ ''api'' @ '':'' @ ''main'') =
       Inr \<lparr>url = ''https://github.com/'' @ ''openshift'' @ ''/'' @ ''api'',
            ns = ''openshift'', name = ''api'', branch = ''main''\<rparr>"
proof -
  have h: "\<not> list_all WHATWG_C0_CONTROL_OR_SPACE ''openshift''"
    "CHR ''/'' \<notin> set ''openshift''" "CHR '':'' \<notin> set ''openshift''"
    by (simp_all add: WHATWG_C0_CONTROL_OR_SPACE_def)
  have r: "''api'' \<noteq> [] \<and> CHR '':'' \<notin> set ''api'' \<and> CHR 0x0A \<notin> set ''main''"
    by simp
  from parse_url_form_eq_bare_form [OF h, of no_bracket_error "''api''" "''main''"] r h
  show ?thesis by blast
qed

text \<open>
  An owner may hold a colon, since \<open>[^/]+\<close> accepts one: the URL form of
  \<open>x:y/r:b\<close> is parsed with the owner \<open>x:y\<close>, while in the bare form \<open>urlparse\<close> reads
  \<open>x\<close> as a scheme and the input is rejected.
\<close>

theorem parse_url_form_counterexample:
  "parse_github_branch no_bracket_error ''https://github.com/x:y/r:b'' =
     Inr \<lparr>url = ''https://github.com/x:y/r'', ns = ''x:y'', name = ''r'', branch = ''b''\<rparr>
   \<and> parse_github_branch no_bracket_error ''x:y/r:b'' =
       Inl (ValueError ''Only GitHub URLs are supported right now'')"
  by (simp add: parse_defs no_bracket_error_def)

section \<open>The provider: statements of the specification\<close>

lemmas init_defs = GithubAppProvider_init_def bool_int_def bool_bytes_def bool_branch_def

lemmas login_defs = github_app_def github_login_app_def Github_new_def logging_info_def
  logging_error_def token_exchanges_def token_requests_def get_github_user_logged_in_app_def

subsection \<open>Construction in app mode\<close>

text \<open>
  C6. With \<open>user_auth\<close> false, the constructor raises
  \<open>ValueError: Credentials for both, cloning and pushing app should be provided\<close>
  as soon as one of the six arguments \<open>app_id\<close>, \<open>app_key\<close>, \<open>dest_branch\<close>,
  \<open>cloner_id\<close>, \<open>cloner_key\<close>, \<open>rebase_branch\<close> is missing, whatever the others are.
  With all six given, both ids other than 0 and both keys not empty, it returns a
  provider that holds the two credential sets, no token and no cached client.
\<close>

theorem init_app_mode_all_or_nothing:
  "(app_id' = None \<or> app_key' = None \<or> dest_branch = None
      \<or> cloner_id = None \<or> cloner_key = None \<or> rebase_branch = None \<longrightarrow>
      GithubAppProvider_init app_id' app_key' dest_branch cloner_id cloner_key rebase_branch
        False ut =
      Inl (ValueError ''Credentials for both, cloning and pushing app should be provided''))
   \<and> (a \<noteq> 0 \<and> k \<noteq> [] \<and> c \<noteq> 0 \<and> ck \<noteq> [] \<longrightarrow>
      GithubAppProvider_init (Some a) (Some k) (Some d) (Some c) (Some ck) (Some r) False ut =
      Inr \<lparr>user_auth = False, user_token = ut,
           p_app_credentials = Some \<lparr>app_id = a, app_key = k, github_branch = d\<rparr>,
           p_cloner_app_credentials = Some \<lparr>app_id = c, app_key = ck, github_branch = r\<rparr>,
           p_app_token = None, p_cloner_token = None,
           cached_github_app = None, cached_github_cloner_app = None\<rparr>)"
  by (auto simp: init_defs)

theorem init_app_mode_all_or_nothing_witness:
  "GithubAppProvider_init (Some 1) (Some [1])
      (Some \<lparr>url = ''https://github.com/o/r'', ns = ''o'', name = ''r'', branch = ''main''\<rparr>)
      (Some 2) None
      (Some \<lparr>url = ''https://github.com/o/s'', ns = ''o'', name = ''s'', branch = ''rebase''\<rparr>)
      False None =
      Inl (ValueError ''Credentials for both, cloning and pushing app should be provided'')
   \<and> GithubAppProvider_init (Some 1) (Some [1])
      (Some \<lparr>url = ''https://github.com/o/r'', ns = ''o'', name = ''r'', branch = ''main''\<rparr>)
      (Some 2) (Some [2])
      (Some \<lparr>url = ''https://github.com/o/s'', ns = ''o'', name = ''s'', branch = ''rebase''\<rparr>)
      False None =
      Inr \<lparr>user_auth = False, user_token = None,
           p_app_credentials = Some \<lparr>app_id = 1, app_key = [1],
              github_branch = \<lparr>url = ''https://github.com/o/r'', ns = ''o'', name = ''r'',
                                branch = ''main''\<rparr>\<rparr>,
           p_cloner_app_credentials = Some \<lparr>app_id = 2, app_key = [2],
              github_branch = \<lparr>url = ''https://github.com/o/s'', ns = ''o'', name = ''s'',
                                branch = ''rebase''\<rparr>\<rparr>,
           p_app_token = None, p_cloner_token = None,
           cached_github_app = None, cached_github_cloner_app = None\<rparr>"
proof -
  let ?d = "\<lparr>url = ''https://github.com/o/r'', ns = ''o'', name = ''r'', branch = ''main''\<rparr>"
  let ?r = "\<lparr>url = ''https://github.com/o/s'', ns = ''o'', name = ''s'', branch = ''rebase''\<rparr>"
  have n: "(1::int) \<noteq> 0 \<and> [1::8 word] \<noteq> [] \<and> (2::int) \<noteq> 0 \<and> [2::8 word] \<noteq> []"
    by simp
  have m: "Some (1::int) = None \<or> Some [1::8 word] = None \<or> Some ?d = None
      \<or> Some (2::int) = None \<or> (None :: bytes option) = None \<or> Some ?r = None"
    by simp
  from init_app_mode_all_or_nothing
    [of "Some 1" "Some [1]" "Some ?d" "Some 2" None "Some ?r" None] m
  have 1: "GithubAppProvider_init (Some 1) (Some [1]) (Some ?d) (Some 2) None (Some ?r)
             False None =
      Inl (ValueError ''Credentials for both, cloning and pushing app should be provided'')"
    by blast
  from init_app_mode_all_or_nothing
    [where a = 1 and k = "[1]" and c = 2 and ck = "[2]" and ut = None
       and d = ?d and r = ?r] n
  have 2: "GithubAppProvider_init (Some 1) (Some [1]) (Some ?d) (Some 2) (Some [2]) (Some ?r)
             False None =
      Inr \<lparr>user_auth = False, user_token = None,
           p_app_credentials = Some \<lparr>app_id = 1, app_key = [1], github_branch = ?d\<rparr>,
           p_cloner_app_credentials = Some \<lparr>app_id = 2, app_key = [2], github_branch = ?r\<rparr>,
           p_app_token = None, p_cloner_token = None,
           cached_github_app = None, cached_github_cloner_app = None\<rparr>"
    by blast
  from 1 2 show ?thesis by (rule conjI)
qed

text \<open>
  C9. With \<open>user_auth\<close> false and all six arguments given, the constructor raises
  the same \<open>ValueError\<close> when \<open>app_id\<close> or \<open>cloner_id\<close> is 0 and when \<open>app_key\<close> or
  \<open>cloner_key\<close> is the empty byte string: \<open>all\<close> tests the truth value of each
  argument, not its presence.
\<close>

theorem init_falsy_is_missing:
  "GithubAppProvider_init (Some 0) (Some k) (Some d) (Some c) (Some ck) (Some r) False ut =
      Inl (ValueError ''Credentials for both, cloning and pushing app should be provided'')
   \<and> GithubAppProvider_init (Some a) (Some []) (Some d) (Some c) (Some ck) (Some r) False ut =
      Inl (ValueError ''Credentials for both, cloning and pushing app should be provided'')
   \<and> GithubAppProvider_init (Some a) (Some k) (Some d) (Some 0) (Some ck) (Some r) False ut =
      Inl (ValueError ''Credentials for both, cloning and pushing app should be provided'')
   \<and> GithubAppProvider_init (Some a) (Some k) (Some d) (Some c) (Some []) (Some r) False ut =
      Inl (ValueError ''Credentials for both, cloning and pushing app should be provided'')"
  by (simp add: init_defs)

theorem init_falsy_is_missing_witness:
  "GithubAppProvider_init (Some 0) (Some [1])
      (Some \<lparr>url = ''u'', ns = ''o'', name = ''r'', branch = ''b''\<rparr>)
      (Some 2) (Some [2]) (Some \<lparr>url = ''v'', ns = ''o'', name = ''s'', branch = ''c''\<rparr>)
      False None =
      Inl (ValueError ''Credentials for both, cloning and pushing app should be provided'')
   \<and> GithubAppProvider_init (Some 1) (Some [])
      (Some \<lparr>url = ''u'', ns = ''o'', name = ''r'', branch = ''b''\<rparr>)
      (Some 2) (Some [2]) (Some \<lparr>url = ''v'', ns = ''o'', name = ''s'', branch = ''c''\<rparr>)
      False None =
      Inl (ValueError ''Credentials for both, cloning and pushing app should be provided'')"
  using init_falsy_is_missing
    [where k = "[1]" and a = 1 and c = 2 and ck = "[2]" and ut = None
      and d = "\<lparr>url = ''u'', ns = ''o'', name = ''r'', branch = ''b''\<rparr>"
      and r = "\<lparr>url = ''v'', ns = ''o'', name = ''s'', branch = ''c''\<rparr>"]
  by blast

subsection \<open>Construction in user mode\<close>

text \<open>
  C3, amended. With \<open>user_auth\<close> true the constructor checks nothing: for every
  \<open>user_token\<close>, given or not, and whatever the six app arguments are, it returns a
  provider that holds this \<open>user_token\<close> and no app credentials, and
  \<open>get_app_token\<close> and \<open>get_cloner_token\<close> of that provider return the
  \<open>user_token\<close> as it was passed.
\<close>

theorem init_user_mode_any_token:
  "GithubAppProvider_init aid akey dbr cid ckey rbr True ut =
     Inr \<lparr>user_auth = True, user_token = ut,
          p_app_credentials = None, p_cloner_app_credentials = None,
          p_app_token = None, p_cloner_token = None,
          cached_github_app = None, cached_github_cloner_app = None\<rparr>
   \<and> (\<forall>p. GithubAppProvider_init aid akey dbr cid ckey rbr True ut = Inr p \<longrightarrow>
          get_app_token p = ut \<and> get_cloner_token p = ut)"
  by (auto simp: init_defs get_app_token_def get_cloner_token_def)

theorem init_user_mode_any_token_witness:
  "GithubAppProvider_init None None None None None None True (Some ''t'') =
     Inr \<lparr>user_auth = True, user_token = Some ''t'',
          p_app_credentials = None, p_cloner_app_credentials = None,
          p_app_token = None, p_cloner_token = None,
          cached_github_app = None, cached_github_cloner_app = None\<rparr>
   \<and> get_app_token \<lparr>user_auth = True, user_token = Some ''t'',
          p_app_credentials = None, p_cloner_app_credentials = None,
          p_app_token = None, p_cloner_token = None,
          cached_github_app = None, cached_github_cloner_app = None\<rparr> = Some ''t''"
  using init_user_mode_any_token [of None None None None None None "Some ''t''"]
  by blast

text \<open>
  Without a \<open>user_token\<close> the constructor returns a provider all the same, and its
  \<open>get_app_token\<close> returns \<open>None\<close>.
\<close>

theorem init_user_mode_without_token_counterexample:
  "GithubAppProvider_init None None None None None None True None =
     Inr \<lparr>user_auth = True, user_token = None,
          p_app_credentials = None, p_cloner_app_credentials = None,
          p_app_token = None, p_cloner_token = None,
          cached_github_app = None, cached_github_cloner_app = None\<rparr>
   \<and> get_app_token \<lparr>user_auth = True, user_token = None,
          p_app_credentials = None, p_cloner_app_credentials = None,
          p_app_token = None, p_cloner_token = None,
          cached_github_app = None, cached_github_cloner_app = None\<rparr> = None"
  by (simp add: init_defs get_app_token_def)

subsection \<open>The app is not installed\<close>

text \<open>
  C5. Take a provider constructed in app mode and a state of the world in which
  GitHub answers the lookup of the installation for the owner and repository of
  \<open>dest_branch\<close> with \<open>UnknownObjectException\<close>. Then \<open>github_app\<close> raises an
  \<open>Exception\<close> whose message names that owner and that repository, the provider is
  left as it was, with no token and no cached client, and no access token has
  been asked for.
\<close>

theorem github_app_not_installed:
  assumes "GithubAppProvider_init (Some a) (Some k) (Some d) (Some c) (Some ck) (Some r)
             False ut = Inr p"
    and "get_repo_installation api (calls w) a k (ns d) (name d) = Inl UnknownObjectException"
  shows "fst (github_app api p w) =
           Inl (Exception (''App has not been authorized by '' @ ns d @ '', or repo ''
                             @ ns d @ ''/'' @ name d @ '' does not exist''))
         \<and> fst (snd (github_app api p w)) = p
         \<and> p_app_token p = None \<and> get_app_token p = None \<and> cached_github_app p = None
         \<and> token_requests (snd (snd (github_app api p w))) = token_requests w"
  using assms
  by (auto simp: init_defs login_defs get_app_token_def Let_def split: if_splits)

theorem github_app_not_installed_witness:
  "fst (github_app
     \<lparr>get_repo_installation = (\<lambda>h a k ow rp. Inl UnknownObjectException),
       get_access_token = (\<lambda>h a k i. Inr ''t'')\<rparr>
     \<lparr>user_auth = False, user_token = None,
       p_app_credentials = Some \<lparr>app_id = 1, app_key = [1],
          github_branch = \<lparr>url = ''u'', ns = ''o'', name = ''r'', branch = ''b''\<rparr>\<rparr>,
       p_cloner_app_credentials = Some \<lparr>app_id = 2, app_key = [2],
          github_branch = \<lparr>url = ''v'', ns = ''o'', name = ''s'', branch = ''c''\<rparr>\<rparr>,
       p_app_token = None, p_cloner_token = None,
       cached_github_app = None, cached_github_cloner_app = None\<rparr>
     \<lparr>calls = [], logged = [], handles = 0\<rparr>)
   = Inl (Exception ''App has not been authorized by o, or repo o/r does not exist'')"
proof -
  let ?api = "\<lparr>get_repo_installation = (\<lambda>h a k ow rp. Inl UnknownObjectException),
               get_access_token = (\<lambda>h a k i. Inr ''t'')\<rparr>"
  let ?d = "\<lparr>url = ''u'', ns = ''o'', name = ''r'', branch = ''b''\<rparr>"
  let ?r = "\<lparr>url = ''v'', ns = ''o'', name = ''s'', branch = ''c''\<rparr>"
  let ?p0 = "\<lparr>user_auth = False, user_token = None,
       p_app_credentials = Some \<lparr>app_id = 1, app_key = [1], github_branch = ?d\<rparr>,
       p_cloner_app_credentials = Some \<lparr>app_id = 2, app_key = [2], github_branch = ?r\<rparr>,
       p_app_token = None, p_cloner_token = None,
       cached_github_app = None, cached_github_cloner_app = None\<rparr>"
  let ?w0 = "\<lparr>calls = [], logged = [], handles = 0\<rparr>"
  have i: "GithubAppProvider_init (Some 1) (Some [1]) (Some ?d) (Some 2) (Some [2]) (Some ?r)
             False None = Inr ?p0"
    by (simp add: init_defs)
  have l: "get_repo_installation ?api (calls ?w0) 1 [1] (ns ?d) (name ?d)
             = Inl UnknownObjectException"
    by simp
  from github_app_not_installed [OF i l] show ?thesis by simp
qed

subsection \<open>The cached client\<close>

lemma github_app_cached:
  "cached_github_app p = Some h \<Longrightarrow> github_app api p w = (Inr h, p, w)"
  by (simp add: github_app_def)

lemma github_login_app_exchanges:
  "github_login_app api cr w = (r, w') \<Longrightarrow>
   token_exchanges w' = token_exchanges w + (case r of Inl _ \<Rightarrow> 0 | Inr _ \<Rightarrow> 1)"
  by (auto simp: github_login_app_def Github_new_def logging_info_def logging_error_def
      token_exchanges_def Let_def split: sum.splits api_exception.splits)

lemma github_login_app_requests:
  "github_login_app api cr w = (Inr ht, w') \<Longrightarrow> token_requests w' = token_requests w + 1"
  by (auto simp: github_login_app_def Github_new_def logging_info_def logging_error_def
      token_requests_def Let_def split: sum.splits api_exception.splits)

lemma github_login_app_token:
  "github_login_app api cr w = (Inr (h, tok), w') \<Longrightarrow>
   h = Github (handles w) (Token (Some tok))"
  by (auto simp: github_login_app_def Github_new_def logging_info_def logging_error_def
      Let_def split: sum.splits api_exception.splits)

text \<open>One read of \<open>github_app\<close> in app mode while nothing is cached.\<close>

lemma github_app_fresh:
  assumes "\<not> user_auth p" "cached_github_app p = None" "p_app_credentials p = Some cr"
    and "github_app api p w = (r, p', w')"
  shows "(case r of
            Inl e \<Rightarrow> p' = p \<and> token_exchanges w' = token_exchanges w
          | Inr h \<Rightarrow> (\<exists>tok. h = Github (handles w) (Token (Some tok))
                       \<and> p' = p\<lparr>p_app_token := Some tok, cached_github_app := Some h\<rparr>)
                     \<and> token_exchanges w' = token_exchanges w + 1
                     \<and> token_requests w' = token_requests w + 1)"
proof (cases "github_login_app api cr w")
  case (Pair lr lw)
  show ?thesis
  proof (cases lr)
    case (Inl e)
    with Pair assms github_login_app_exchanges [OF Pair] show ?thesis
      by (auto simp: github_app_def)
  next
    case (Inr ht)
    obtain h tok where ht: "ht = (h, tok)" by (cases ht)
    with Inr Pair have l: "github_login_app api cr w = (Inr (h, tok), lw)" by simp
    from github_login_app_token [OF l] github_login_app_requests [OF l]
      github_login_app_exchanges [OF Pair] Inr Pair ht assms
    show ?thesis
      by (auto simp: github_app_def)
  qed
qed

lemma init_app_mode_D:
  assumes "GithubAppProvider_init aid akey dbr cid ckey rbr False ut = Inr p"
  shows "\<not> user_auth p" "cached_github_app p = None" "p_app_token p = None"
    and "\<exists>cr. p_app_credentials p = Some cr"
  using assms by (auto simp: GithubAppProvider_init_def Let_def split: if_splits)

lemma github_login_app_answers:
  assumes "github_login_app api cr w = (Inr ht, w')"
  shows "\<exists>inst tok.
           get_repo_installation api (calls w) (app_id cr) (app_key cr)
             (ns (github_branch cr)) (name (github_branch cr)) = Inr inst
         \<and> get_access_token api
             (calls w @ [RepoInstallation (app_id cr) (app_key cr)
                           (ns (github_branch cr)) (name (github_branch cr)) (Inr inst)])
             (app_id cr) (app_key cr) inst = Inr tok"
  using assms
  by (auto simp: github_login_app_def Github_new_def logging_info_def logging_error_def
      Let_def split: sum.splits api_exception.splits)

lemma init_app_mode_eq:
  assumes "GithubAppProvider_init (Some a) (Some k) (Some d) (Some c) (Some ck) (Some r)
             False ut = Inr p"
  shows "p = \<lparr>user_auth = False, user_token = ut,
              p_app_credentials = Some \<lparr>app_id = a, app_key = k, github_branch = d\<rparr>,
              p_cloner_app_credentials = Some \<lparr>app_id = c, app_key = ck, github_branch = r\<rparr>,
              p_app_token = None, p_cloner_token = None,
              cached_github_app = None, cached_github_cloner_app = None\<rparr>"
  using assms by (auto simp: init_defs Let_def split: if_splits)

text \<open>
  C1, amended. Take a provider constructed in app mode and a state of the world.

  When GitHub answers the lookup of the installation with an installation and the
  request for an access token with a token, the first read of \<open>github_app\<close> sends
  exactly these two requests, logs one message, and returns a new client
  authenticated with the token GitHub gave; client and token are stored in the
  provider, \<open>get_app_token\<close> returns that token, and every later read, in any state
  of the world, returns the same client and changes neither the provider nor the
  world. Two reads then make one request for an access token.

  A read returns a client only when GitHub has answered both requests in this
  way; a read that raises leaves the provider as it was, so nothing is cached.
  Over any two reads GitHub hands out at most one access token.
\<close>

theorem github_app_exchanges_once:
  assumes "GithubAppProvider_init (Some a) (Some k) (Some d) (Some c) (Some ck) (Some r)
             False ut = Inr p0"
  shows
    "(\<forall>inst tok.
        get_repo_installation api (calls w0) a k (ns d) (name d) = Inr inst
        \<and> get_access_token api (calls w0 @ [RepoInstallation a k (ns d) (name d) (Inr inst)])
            a k inst = Inr tok
        \<longrightarrow>
          github_app api p0 w0 =
            (Inr (Github (handles w0) (Token (Some tok))),
             p0\<lparr>p_app_token := Some tok,
                cached_github_app := Some (Github (handles w0) (Token (Some tok)))\<rparr>,
             w0\<lparr>calls := calls w0 @ [RepoInstallation a k (ns d) (name d) (Inr inst),
                                      AccessToken a k inst (Inr tok)],
                logged := logged w0 @
                  [(INFO, ''Logging to GitHub as an Application for repository '' @ url d)],
                handles := Suc (handles w0)\<rparr>)
          \<and> get_app_token
               (p0\<lparr>p_app_token := Some tok,
                   cached_github_app := Some (Github (handles w0) (Token (Some tok)))\<rparr>)
              = Some tok
          \<and> token_requests (snd (snd (github_app api p0 w0))) = token_requests w0 + 1
          \<and> (\<forall>w. github_app api
                     (p0\<lparr>p_app_token := Some tok,
                         cached_github_app := Some (Github (handles w0) (Token (Some tok)))\<rparr>)
                     w =
                   (Inr (Github (handles w0) (Token (Some tok))),
                    p0\<lparr>p_app_token := Some tok,
                       cached_github_app := Some (Github (handles w0) (Token (Some tok)))\<rparr>,
                    w)))
     \<and> (\<forall>r1 p1 w1. github_app api p0 w0 = (r1, p1, w1) \<longrightarrow>
          (\<forall>h. r1 = Inr h \<longrightarrow>
             (\<exists>inst tok.
                get_repo_installation api (calls w0) a k (ns d) (name d) = Inr inst
                \<and> get_access_token api
                    (calls w0 @ [RepoInstallation a k (ns d) (name d) (Inr inst)])
                    a k inst = Inr tok))
          \<and> (\<forall>e. r1 = Inl e \<longrightarrow> p1 = p0 \<and> token_exchanges w1 = token_exchanges w0)
          \<and> (\<forall>r2 p2 w2. github_app api p1 w1 = (r2, p2, w2) \<longrightarrow>
                token_exchanges w2 \<le> token_exchanges w0 + 1))"
proof (intro conjI allI impI)
  note p0 = init_app_mode_eq [OF assms]
  fix inst tok
  assume g: "get_repo_installation api (calls w0) a k (ns d) (name d) = Inr inst
        \<and> get_access_token api (calls w0 @ [RepoInstallation a k (ns d) (name d) (Inr inst)])
            a k inst = Inr tok"
  let ?h = "Github (handles w0) (Token (Some tok))"
  let ?p1 = "p0\<lparr>p_app_token := Some tok, cached_github_app := Some ?h\<rparr>"
  show first: "github_app api p0 w0 =
            (Inr ?h, ?p1,
             w0\<lparr>calls := calls w0 @ [RepoInstallation a k (ns d) (name d) (Inr inst),
                                      AccessToken a k inst (Inr tok)],
                logged := logged w0 @
                  [(INFO, ''Logging to GitHub as an Application for repository '' @ url d)],
                handles := Suc (handles w0)\<rparr>)"
    using g by (simp add: p0 github_app_def github_login_app_def Github_new_def
        logging_info_def)
  show "get_app_token ?p1 = Some tok"
    by (simp add: p0 get_app_token_def)
  show "token_requests (snd (snd (github_app api p0 w0))) = token_requests w0 + 1"
    unfolding first by (simp add: token_requests_def)
  show "github_app api ?p1 w = (Inr ?h, ?p1, w)" for w
    by (rule github_app_cached) simp
next
  note i = init_app_mode_D [OF assms]
  note p0 = init_app_mode_eq [OF assms]
  have cr: "p_app_credentials p0 = Some \<lparr>app_id = a, app_key = k, github_branch = d\<rparr>"
    by (simp add: p0)
  fix r1 p1 w1
  assume c1: "github_app api p0 w0 = (r1, p1, w1)"
  note f1 = github_app_fresh [OF i(1) i(2) cr c1]
  {
    fix h assume h: "r1 = Inr h"
    obtain lr lw where l: "github_login_app api \<lparr>app_id = a, app_key = k, github_branch = d\<rparr> w0
                             = (lr, lw)"
      by (cases "github_login_app api \<lparr>app_id = a, app_key = k, github_branch = d\<rparr> w0")
    from c1 h l i cr obtain ht where "lr = Inr ht"
      by (cases lr) (auto simp: github_app_def)
    with l github_login_app_answers [of api "\<lparr>app_id = a, app_key = k, github_branch = d\<rparr>" w0 ht lw]
    show "\<exists>inst tok.
                get_repo_installation api (calls w0) a k (ns d) (name d) = Inr inst
                \<and> get_access_token api
                    (calls w0 @ [RepoInstallation a k (ns d) (name d) (Inr inst)])
                    a k inst = Inr tok"
      by simp
  }
  {
    fix e assume "r1 = Inl e"
    with f1 show "p1 = p0" by simp
  }
  {
    fix e assume "r1 = Inl e"
    with f1 show "token_exchanges w1 = token_exchanges w0" by simp
  }
  {
    fix r2 p2 w2
    assume c2: "github_app api p1 w1 = (r2, p2, w2)"
    show "token_exchanges w2 \<le> token_exchanges w0 + 1"
    proof (cases r1)
      case (Inl e)
      with f1 have p1: "p1 = p0" and e1: "token_exchanges w1 = token_exchanges w0"
        by simp_all
      from github_app_fresh [OF i(1) i(2) cr c2 [unfolded p1]]
      have "token_exchanges w2 \<le> token_exchanges w1 + 1"
        by (cases r2) simp_all
      with e1 show ?thesis by simp
    next
      case (Inr h)
      with f1 obtain tok where
        p1: "p1 = p0\<lparr>p_app_token := Some tok, cached_github_app := Some h\<rparr>"
        and e1: "token_exchanges w1 = token_exchanges w0 + 1"
        by auto
      have "cached_github_app p1 = Some h" using p1 by simp
      from github_app_cached [OF this, of api w1] c2 have "w2 = w1" by simp
      with e1 show ?thesis by simp
    qed
  }
qed

theorem github_app_exchanges_once_witness:
  "GithubAppProvider_init (Some 1) (Some [1])
      (Some \<lparr>url = ''u'', ns = ''o'', name = ''r'', branch = ''b''\<rparr>)
      (Some 2) (Some [2]) (Some \<lparr>url = ''v'', ns = ''o'', name = ''s'', branch = ''c''\<rparr>)
      False None =
     Inr \<lparr>user_auth = False, user_token = None,
       p_app_credentials = Some \<lparr>app_id = 1, app_key = [1],
          github_branch = \<lparr>url = ''u'', ns = ''o'', name = ''r'', branch = ''b''\<rparr>\<rparr>,
       p_cloner_app_credentials = Some \<lparr>app_id = 2, app_key = [2],
          github_branch = \<lparr>url = ''v'', ns = ''o'', name = ''s'', branch = ''c''\<rparr>\<rparr>,
       p_app_token = None, p_cloner_token = None,
       cached_github_app = None, cached_github_cloner_app = None\<rparr>
   \<and> github_app
       \<lparr>get_repo_installation = lookup_installed, get_access_token = token_granted\<rparr>
       \<lparr>user_auth = False, user_token = None,
         p_app_credentials = Some \<lparr>app_id = 1, app_key = [1],
            github_branch = \<lparr>url = ''u'', ns = ''o'', name = ''r'', branch = ''b''\<rparr>\<rparr>,
         p_cloner_app_credentials = Some \<lparr>app_id = 2, app_key = [2],
            github_branch = \<lparr>url = ''v'', ns = ''o'', name = ''s'', branch = ''c''\<rparr>\<rparr>,
         p_app_token = None, p_cloner_token = None,
         cached_github_app = None, cached_github_cloner_app = None\<rparr>
       \<lparr>calls = [], logged = [], handles = 0\<rparr>
     = (Inr (Github 0 (Token (Some ''t''))),
        \<lparr>user_auth = False, user_token = None,
          p_app_credentials = Some \<lparr>app_id = 1, app_key = [1],
             github_branch = \<lparr>url = ''u'', ns = ''o'', name = ''r'', branch = ''b''\<rparr>\<rparr>,
          p_cloner_app_credentials = Some \<lparr>app_id = 2, app_key = [2],
             github_branch = \<lparr>url = ''v'', ns = ''o'', name = ''s'', branch = ''c''\<rparr>\<rparr>,
          p_app_token = Some ''t'', p_cloner_token = None,
          cached_github_app = Some (Github 0 (Token (Some ''t''))),
          cached_github_cloner_app = None\<rparr>,
        \<lparr>calls = [RepoInstallation 1 [1] ''o'' ''r'' (Inr 7),
                  AccessToken 1 [1] 7 (Inr ''t'')],
          logged = [(INFO, ''Logging to GitHub as an Application for repository u'')],
          handles = 1\<rparr>)
   \<and> github_app
       \<lparr>get_repo_installation = lookup_installed, get_access_token = token_granted\<rparr>
       \<lparr>user_auth = False, user_token = None,
         p_app_credentials = Some \<lparr>app_id = 1, app_key = [1],
            github_branch = \<lparr>url = ''u'', ns = ''o'', name = ''r'', branch = ''b''\<rparr>\<rparr>,
         p_cloner_app_credentials = Some \<lparr>app_id = 2, app_key = [2],
            github_branch = \<lparr>url = ''v'', ns = ''o'', name = ''s'', branch = ''c''\<rparr>\<rparr>,
         p_app_token = Some ''t'', p_cloner_token = None,
         cached_github_app = Some (Github 0 (Token (Some ''t''))),
         cached_github_cloner_app = None\<rparr>
       \<lparr>calls = [RepoInstallation 1 [1] ''o'' ''r'' (Inr 7),
                 AccessToken 1 [1] 7 (Inr ''t'')],
         logged = [(INFO, ''Logging to GitHub as an Application for repository u'')],
         handles = 1\<rparr>
     = (Inr (Github 0 (Token (Some ''t''))),
        \<lparr>user_auth = False, user_token = None,
          p_app_credentials = Some \<lparr>app_id = 1, app_key = [1],
             github_branch = \<lparr>url = ''u'', ns = ''o'', name = ''r'', branch = ''b''\<rparr>\<rparr>,
          p_cloner_app_credentials = Some \<lparr>app_id = 2, app_key = [2],
             github_branch = \<lparr>url = ''v'', ns = ''o'', name = ''s'', branch = ''c''\<rparr>\<rparr>,
          p_app_token = Some ''t'', p_cloner_token = None,
          cached_github_app = Some (Github 0 (Token (Some ''t''))),
          cached_github_cloner_app = None\<rparr>,
        \<lparr>calls = [RepoInstallation 1 [1] ''o'' ''r'' (Inr 7),
                  AccessToken 1 [1] 7 (Inr ''t'')],
          logged = [(INFO, ''Logging to GitHub as an Application for repository u'')],
          handles = 1\<rparr>)
   \<and> token_exchanges
        \<lparr>calls = [RepoInstallation 1 [1] ''o'' ''r'' (Inr 7),
                  AccessToken 1 [1] 7 (Inr ''t'')],
          logged = [(INFO, ''Logging to GitHub as an Application for repository u'')],
          handles = 1\<rparr>
       \<le> token_exchanges \<lparr>calls = [], logged = [], handles = 0\<rparr> + 1
   \<and> token_exchanges
        \<lparr>calls = [RepoInstallation 1 [1] ''o'' ''r'' (Inr 7),
                  AccessToken 1 [1] 7 (Inl (OtherException ''502''))],
          logged = [(INFO, ''Logging to GitHub as an Application for repository u'')],
          handles = 0\<rparr>
       = token_exchanges \<lparr>calls = [], logged = [], handles = 0\<rparr>"
proof -
  let ?api = "\<lparr>get_repo_installation = lookup_installed, get_access_token = token_granted\<rparr>"
  let ?bad = "\<lparr>get_repo_installation = lookup_installed, get_access_token = token_refused\<rparr>"
  let ?d = "\<lparr>url = ''u'', ns = ''o'', name = ''r'', branch = ''b''\<rparr>"
  let ?r = "\<lparr>url = ''v'', ns = ''o'', name = ''s'', branch = ''c''\<rparr>"
  let ?p0 = "\<lparr>user_auth = False, user_token = None,
       p_app_credentials = Some \<lparr>app_id = 1, app_key = [1], github_branch = ?d\<rparr>,
       p_cloner_app_credentials = Some \<lparr>app_id = 2, app_key = [2], github_branch = ?r\<rparr>,
       p_app_token = None, p_cloner_token = None,
       cached_github_app = None, cached_github_cloner_app = None\<rparr>"
  let ?w0 = "\<lparr>calls = [], logged = [], handles = 0\<rparr>"
  have i: "GithubAppProvider_init (Some 1) (Some [1]) (Some ?d) (Some 2) (Some [2]) (Some ?r)
             False None = Inr ?p0"
    by (simp add: init_defs)
  have g: "get_repo_installation ?api (calls ?w0) 1 [1] (ns ?d) (name ?d) = Inr 7
        \<and> get_access_token ?api
            (calls ?w0 @ [RepoInstallation 1 [1] (ns ?d) (name ?d) (Inr 7)]) 1 [1] 7 = Inr ''t''"
    by (simp add: lookup_installed_def token_granted_def)
  let ?h = "Github 0 (Token (Some ''t''))"
  let ?p1 = "\<lparr>user_auth = False, user_token = None,
       p_app_credentials = Some \<lparr>app_id = 1, app_key = [1], github_branch = ?d\<rparr>,
       p_cloner_app_credentials = Some \<lparr>app_id = 2, app_key = [2], github_branch = ?r\<rparr>,
       p_app_token = Some ''t'', p_cloner_token = None,
       cached_github_app = Some ?h, cached_github_cloner_app = None\<rparr>"
  let ?w1 = "\<lparr>calls = [RepoInstallation 1 [1] ''o'' ''r'' (Inr 7),
                       AccessToken 1 [1] 7 (Inr ''t'')],
       logged = [(INFO, ''Logging to GitHub as an Application for repository u'')],
       handles = 1\<rparr>"
  let ?w1' = "\<lparr>calls = [RepoInstallation 1 [1] ''o'' ''r'' (Inr 7),
                        AccessToken 1 [1] 7 (Inl (OtherException ''502''))],
       logged = [(INFO, ''Logging to GitHub as an Application for repository u'')],
       handles = 0\<rparr>"
  note good = github_app_exchanges_once [OF i, of ?api ?w0]
  note bad = github_app_exchanges_once [OF i, of ?bad ?w0]
  note t = good [THEN conjunct1, rule_format, OF g]
  have c1: "github_app ?api ?p0 ?w0 = (Inr ?h, ?p1, ?w1)"
    using t [THEN conjunct1] by simp
  have c2: "github_app ?api ?p1 ?w1 = (Inr ?h, ?p1, ?w1)"
    using t [THEN conjunct2, THEN conjunct2, THEN conjunct2, rule_format, of ?w1] by simp
  have e: "token_exchanges ?w1 \<le> token_exchanges ?w0 + 1"
    using good [THEN conjunct2, rule_format, OF c1, THEN conjunct2, THEN conjunct2,
        rule_format, OF c2] .
  have b1: "github_app ?bad ?p0 ?w0 = (Inl (Propagated (OtherException ''502'')), ?p0, ?w1')"
    by (simp add: login_defs lookup_installed_def token_refused_def)
  have f: "token_exchanges ?w1' = token_exchanges ?w0"
    using bad [THEN conjunct2, rule_format, OF b1, THEN conjunct2, THEN conjunct1,
        rule_format, OF refl, THEN conjunct2] .
  from i c1 c2 e f show ?thesis by (intro conjI)
qed

text \<open>
  The statement that two reads make at most one request for an access token fails
  when the first read raises. Here GitHub refuses the token: the first read raises
  and stores nothing, the second read looks the installation up and asks for a
  token again, and the world holds two requests for an access token.
\<close>

theorem github_app_two_requests_counterexample:
  "GithubAppProvider_init (Some 1) (Some [1])
      (Some \<lparr>url = ''u'', ns = ''o'', name = ''r'', branch = ''b''\<rparr>)
      (Some 2) (Some [2]) (Some \<lparr>url = ''v'', ns = ''o'', name = ''s'', branch = ''c''\<rparr>)
      False None =
     Inr \<lparr>user_auth = False, user_token = None,
       p_app_credentials = Some \<lparr>app_id = 1, app_key = [1],
          github_branch = \<lparr>url = ''u'', ns = ''o'', name = ''r'', branch = ''b''\<rparr>\<rparr>,
       p_cloner_app_credentials = Some \<lparr>app_id = 2, app_key = [2],
          github_branch = \<lparr>url = ''v'', ns = ''o'', name = ''s'', branch = ''c''\<rparr>\<rparr>,
       p_app_token = None, p_cloner_token = None,
       cached_github_app = None, cached_github_cloner_app = None\<rparr>
   \<and> github_app
       \<lparr>get_repo_installation = lookup_installed, get_access_token = token_refused\<rparr>
       \<lparr>user_auth = False, user_token = None,
         p_app_credentials = Some \<lparr>app_id = 1, app_key = [1],
            github_branch = \<lparr>url = ''u'', ns = ''o'', name = ''r'', branch = ''b''\<rparr>\<rparr>,
         p_cloner_app_credentials = Some \<lparr>app_id = 2, app_key = [2],
            github_branch = \<lparr>url = ''v'', ns = ''o'', name = ''s'', branch = ''c''\<rparr>\<rparr>,
         p_app_token = None, p_cloner_token = None,
         cached_github_app = None, cached_github_cloner_app = None\<rparr>
       \<lparr>calls = [], logged = [], handles = 0\<rparr>
     = (Inl (Propagated (OtherException ''502'')),
        \<lparr>user_auth = False, user_token = None,
          p_app_credentials = Some \<lparr>app_id = 1, app_key = [1],
             github_branch = \<lparr>url = ''u'', ns = ''o'', name = ''r'', branch = ''b''\<rparr>\<rparr>,
          p_cloner_app_credentials = Some \<lparr>app_id = 2, app_key = [2],
             github_branch = \<lparr>url = ''v'', ns = ''o'', name = ''s'', branch = ''c''\<rparr>\<rparr>,
          p_app_token = None, p_cloner_token = None,
          cached_github_app = None, cached_github_cloner_app = None\<rparr>,
        \<lparr>calls = [RepoInstallation 1 [1] ''o'' ''r'' (Inr 7),
                  AccessToken 1 [1] 7 (Inl (OtherException ''502''))],
          logged = [(INFO, ''Logging to GitHub as an Application for repository u'')],
          handles = 0\<rparr>)
   \<and> github_app
       \<lparr>get_repo_installation = lookup_installed, get_access_token = token_refused\<rparr>
       \<lparr>user_auth = False, user_token = None,
         p_app_credentials = Some \<lparr>app_id = 1, app_key = [1],
            github_branch = \<lparr>url = ''u'', ns = ''o'', name = ''r'', branch = ''b''\<rparr>\<rparr>,
         p_cloner_app_credentials = Some \<lparr>app_id = 2, app_key = [2],
            github_branch = \<lparr>url = ''v'', ns = ''o'', name = ''s'', branch = ''c''\<rparr>\<rparr>,
         p_app_token = None, p_cloner_token = None,
         cached_github_app = None, cached_github_cloner_app = None\<rparr>
       \<lparr>calls = [RepoInstallation 1 [1] ''o'' ''r'' (Inr 7),
                 AccessToken 1 [1] 7 (Inl (OtherException ''502''))],
         logged = [(INFO, ''Logging to GitHub as an Application for repository u'')],
         handles = 0\<rparr>
     = (Inl (Propagated (OtherException ''502'')),
        \<lparr>user_auth = False, user_token = None,
          p_app_credentials = Some \<lparr>app_id = 1, app_key = [1],
             github_branch = \<lparr>url = ''u'', ns = ''o'', name = ''r'', branch = ''b''\<rparr>\<rparr>,
          p_cloner_app_credentials = Some \<lparr>app_id = 2, app_key = [2],
             github_branch = \<lparr>url = ''v'', ns = ''o'', name = ''s'', branch = ''c''\<rparr>\<rparr>,
          p_app_token = None, p_cloner_token = None,
          cached_github_app = None, cached_github_cloner_app = None\<rparr>,
        \<lparr>calls = [RepoInstallation 1 [1] ''o'' ''r'' (Inr 7),
                  AccessToken 1 [1] 7 (Inl (OtherException ''502'')),
                  RepoInstallation 1 [1] ''o'' ''r'' (Inr 7),
                  AccessToken 1 [1] 7 (Inl (OtherException ''502''))],
          logged = [(INFO, ''Logging to GitHub as an Application for repository u''),
                    (INFO, ''Logging to GitHub as an Application for repository u'')],
          handles = 0\<rparr>)
   \<and> token_requests
        \<lparr>calls = [RepoInstallation 1 [1] ''o'' ''r'' (Inr 7),
                  AccessToken 1 [1] 7 (Inl (OtherException ''502'')),
                  RepoInstallation 1 [1] ''o'' ''r'' (Inr 7),
                  AccessToken 1 [1] 7 (Inl (OtherException ''502''))],
          logged = [(INFO, ''Logging to GitHub as an Application for repository u''),
                    (INFO, ''Logging to GitHub as an Application for repository u'')],
          handles = 0\<rparr> = 2"
  by (simp add: init_defs login_defs lookup_installed_def token_refused_def)

subsection \<open>The two clients do not share a slot\<close>

text \<open>
  Reading \<open>github_cloner_app\<close> leaves the client and the token of \<open>github_app\<close> as
  they are, so a read of the one between two reads of the other changes nothing
  of the above.
\<close>

lemma github_cloner_app_keeps_app:
  assumes "github_cloner_app api p w = (r, p', w')"
  shows "cached_github_app p' = cached_github_app p \<and> p_app_token p' = p_app_token p
         \<and> user_auth p' = user_auth p \<and> p_app_credentials p' = p_app_credentials p"
  using assms
  by (auto simp: github_cloner_app_def split: option.splits if_splits sum.splits prod.splits)

end
